theory Spec2Isabelle
  imports Complex_Main "HOL-Library.Word"
begin

section \<open>JavaScript values\<close>

text \<open>
  A JavaScript string is a sequence of 16-bit code units; \<open>text.length\<close> counts them.
  Property names are the ASCII literals of the source and are kept as HOL strings.
  Numbers are modelled by exact rationals: the arithmetic of the module (products with 2,
  quotients by the device pixel ratio and by the font size, row indices) is read without
  rounding, and \<open>NaN\<close> is \<open>None\<close> where the source tests for it.
\<close>

type_synonym jschar = "16 word"
type_synonym jsstring = "jschar list"

definition js :: "string \<Rightarrow> jsstring" where
  "js s = map (\<lambda>c. of_nat (of_char c)) s"

datatype jsval = JStr jsstring | JNum rat

text \<open>
  An object is the map from its property names to the values they resolve to;
  \<open>None\<close> is a property that resolves to \<open>undefined\<close> (absent, or present and undefined:
  lodash's \<open>get\<close>, \<open>defaults\<close> and \<open>merge\<close> do not tell the two apart).
\<close>

type_synonym obj = "string \<rightharpoonup> jsval"

text \<open>
  The three \<open>RangeError\<close>s the module throws, by message, and the exception the host
  canvas may raise on read-back (\<open>getImageData\<close> on an empty rectangle).
\<close>

datatype error =
    RangeError_invalid_font_size
  | RangeError_font_size_zero
  | RangeError_whitespace
  | DOMException

definition InvalidFontSize :: "error \<Rightarrow> bool" where
  "InvalidFontSize e \<longleftrightarrow> e = RangeError_invalid_font_size \<or> e = RangeError_font_size_zero"

definition WhitespaceTextError :: "error \<Rightarrow> bool" where
  "WhitespaceTextError e \<longleftrightarrow> e = RangeError_whitespace"

section \<open>The host\<close>

record dims =
  width :: rat
  height :: rat

text \<open>
  What the module takes from its environment: \<open>window.devicePixelRatio\<close>; the engine's
  \<open>Number::toString\<close> outside the integers below \<open>10^21\<close> (there it is the decimal
  numeral, written out in \<open>numberToString\<close>); and the canvas. \<open>raster\<close> is
  \<open>createCanvas\<close>, \<open>getContext\<close>, \<open>drawContext\<close> and \<open>getPixelData\<close> taken together:
  from the properties (whose font shorthand is set on the context), the size of the
  backing bitmap, the scale of the context, the logical size of the drawing and the text
  it gives the RGBA channel values read back, row by row, or the host's exception.
\<close>

record host =
  DPR :: rat
  numberToString_other :: "rat \<Rightarrow> jsstring"
  raster :: "obj \<Rightarrow> dims \<Rightarrow> rat \<Rightarrow> dims \<Rightarrow> jsstring \<Rightarrow> error + 8 word list"

section \<open>Strings and numbers\<close>

definition digitChar :: "nat \<Rightarrow> jschar" where
  "digitChar d = of_nat (48 + d)"

fun decimal :: "nat \<Rightarrow> jsstring" where
  "decimal n = (if n < 10 then [digitChar n] else decimal (n div 10) @ [digitChar (n mod 10)])"

declare decimal.simps [simp del]

definition numberToString :: "host \<Rightarrow> rat \<Rightarrow> jsstring" where
  "numberToString h q =
     (if of_int \<lfloor>q\<rfloor> = q \<and> \<bar>q\<bar> < 10 ^ 21
      then (if q < 0 then js ''-'' else []) @ decimal (nat \<lfloor>\<bar>q\<bar>\<rfloor>)
      else numberToString_other h q)"

text \<open>lodash \<open>toString\<close> on the values a property can hold.\<close>

fun toString :: "host \<Rightarrow> jsval \<Rightarrow> jsstring" where
  "toString h (JStr s) = s"
| "toString h (JNum q) = numberToString h q"

text \<open>\<open>_.get(object, key, defaultValue)\<close>: the default stands in for \<open>undefined\<close>.\<close>

definition lodash_get :: "obj \<Rightarrow> string \<Rightarrow> jsval \<Rightarrow> jsval" where
  "lodash_get object key defaultValue = (case object key of None \<Rightarrow> defaultValue | Some v \<Rightarrow> v)"

text \<open>The regular expression classes \<open>\d\<close> and \<open>\s\<close> on code units.\<close>

definition isDigit :: "jschar \<Rightarrow> bool" where
  "isDigit c \<longleftrightarrow> 0x30 \<le> c \<and> c \<le> 0x39"

definition isSpace :: "jschar \<Rightarrow> bool" where
  "isSpace c \<longleftrightarrow>
     c = 0x09 \<or> c = 0x0A \<or> c = 0x0B \<or> c = 0x0C \<or> c = 0x0D \<or> c = 0x20 \<or> c = 0xA0
     \<or> c = 0x1680 \<or> (0x2000 \<le> c \<and> c \<le> 0x200A) \<or> c = 0x2028 \<or> c = 0x2029
     \<or> c = 0x202F \<or> c = 0x205F \<or> c = 0x3000 \<or> c = 0xFEFF"

text \<open>\<open>string.replace(/\D/g, '')\<close>\<close>

definition replace_nonDigits :: "jsstring \<Rightarrow> jsstring" where
  "replace_nonDigits s = filter isDigit s"

text \<open>\<open>/\s/.test(text)\<close>\<close>

definition test_whitespace :: "jsstring \<Rightarrow> bool" where
  "test_whitespace text = list_ex isSpace text"

text \<open>
  The value of a string of decimal digits, and the two conversions applied to the
  stripped font size. Both read a non-empty digit string as its decimal value; on the
  empty string \<open>parseFloat\<close> gives \<open>NaN\<close> and lodash \<open>toNumber\<close> (unary plus) gives 0.
  The module applies them to the output of \<open>replace_nonDigits\<close> only, and they are
  modelled for strings of digits: on any other string the definitions read the leading
  digits, which is not meant to describe JavaScript there.
\<close>

definition digitValue :: "jschar \<Rightarrow> nat" where
  "digitValue c = unat c - 48"

definition decimalValue :: "jsstring \<Rightarrow> nat" where
  "decimalValue s = foldl (\<lambda>a c. 10 * a + digitValue c) 0 s"

definition parseFloat :: "jsstring \<Rightarrow> rat option" where
  "parseFloat s =
     (let ds = takeWhile isDigit s in if ds = [] then None else Some (of_nat (decimalValue ds)))"

definition toNumber :: "jsstring \<Rightarrow> rat option" where
  "toNumber s =
     (let ds = takeWhile isDigit s in if ds = [] then Some 0 else Some (of_nat (decimalValue ds)))"

section \<open>Font size\<close>

text \<open>
  The two checks on the parsed number: the callback given to \<open>thru\<close> in the version 2
  module, the two \<open>if\<close> statements of \<open>getFontSize\<close> in the version 1.1 module.
\<close>

definition checkFontSize :: "rat option \<Rightarrow> error + rat" where
  "checkFontSize fontSize =
     (case fontSize of
        None \<Rightarrow> Inl RangeError_invalid_font_size
      | Some n \<Rightarrow> if n = 0 then Inl RangeError_font_size_zero else Inr n)"

text \<open>
  The version 2 module: the lodash chain \<open>get\<close>, \<open>replace\<close>, \<open>toNumber\<close>, \<open>thru\<close>. The
  chain is forced where its result is first used as a number, at \<open>MULTIPLIER * fontSize\<close>,
  before the whitespace test.
\<close>

definition getFontSize :: "host \<Rightarrow> obj \<Rightarrow> error + rat" where
  "getFontSize h properties =
     checkFontSize (toNumber (replace_nonDigits
       (toString h (lodash_get properties ''font-size'' (JNum 0)))))"

text \<open>The version 1.1 module: \<open>parseFloat(_.replace(_.get(...), /\D/g, ''))\<close>.\<close>

definition getFontSize_legacy :: "host \<Rightarrow> obj \<Rightarrow> error + rat" where
  "getFontSize_legacy h properties =
     checkFontSize (parseFloat (replace_nonDigits
       (toString h (lodash_get properties ''font-size'' (JNum 0)))))"

section \<open>Pixel scanner\<close>

definition THRESHOLD :: rat where
  "THRESHOLD = 3 / 4"

definition MULTIPLIER :: rat where
  "MULTIPLIER = 2"

text \<open>The foreground tests on a channel value of the \<open>Uint8ClampedArray\<close>.\<close>

definition isBlack :: "8 word \<Rightarrow> bool" where
  "isBlack v \<longleftrightarrow> v = 0"

definition isNotWhite :: "8 word \<Rightarrow> bool" where
  "isNotWhite v \<longleftrightarrow> of_nat (unat v) < 255 * THRESHOLD"

text \<open>
  \<open>_.findIndex\<close>: the loop \<open>while (++index < length)\<close>, returning the first index whose
  element passes, or -1.
\<close>

fun baseFindIndex :: "('a \<Rightarrow> bool) \<Rightarrow> 'a list \<Rightarrow> int \<Rightarrow> int" where
  "baseFindIndex predicate [] index = -1"
| "baseFindIndex predicate (x # xs) index =
     (if predicate x then index else baseFindIndex predicate xs (index + 1))"

definition findIndex :: "'a list \<Rightarrow> ('a \<Rightarrow> bool) \<Rightarrow> int" where
  "findIndex array predicate = baseFindIndex predicate array 0"

text \<open>
  \<open>_.findLastIndex\<close>: the loop \<open>while (index--)\<close> from \<open>length\<close> down, returning the last
  index whose element passes, or -1.
\<close>

fun baseFindLastIndex :: "('a \<Rightarrow> bool) \<Rightarrow> 'a list \<Rightarrow> nat \<Rightarrow> int" where
  "baseFindLastIndex predicate array 0 = -1"
| "baseFindLastIndex predicate array (Suc index) =
     (if predicate (array ! index) then int index
      else baseFindLastIndex predicate array index)"

definition findLastIndex :: "'a list \<Rightarrow> ('a \<Rightarrow> bool) \<Rightarrow> int" where
  "findLastIndex array predicate = baseFindLastIndex predicate array (length array)"

text \<open>
  The row of a flat index. For \<open>width = 0\<close> the JavaScript quotient is infinite or
  \<open>NaN\<close>, which the model does not represent; a bitmap without a pixel gives no pixel
  data, and the statements about rows below are about widths of at least one pixel.
\<close>

definition getYPosition :: "int \<Rightarrow> rat \<Rightarrow> int" where
  "getYPosition index w = \<lfloor>(of_int index / 4) / w\<rfloor>"

definition getYPosition_legacy :: "int \<Rightarrow> rat \<Rightarrow> int" where
  "getYPosition_legacy i w = \<lfloor>of_int i / (w * 4)\<rfloor>"

definition getAscent :: "8 word list \<Rightarrow> rat \<Rightarrow> int" where
  "getAscent pixelData w = (let index = findIndex pixelData isNotWhite in getYPosition index w)"

definition getDescent :: "8 word list \<Rightarrow> rat \<Rightarrow> int" where
  "getDescent pixelData w =
     (let index = findLastIndex pixelData isNotWhite in getYPosition index w)"

definition getAscent_legacy :: "8 word list \<Rightarrow> rat \<Rightarrow> int" where
  "getAscent_legacy pixelData w =
     (let i = findIndex pixelData isBlack in getYPosition_legacy i w)"

definition getDescent_legacy :: "8 word list \<Rightarrow> rat \<Rightarrow> int" where
  "getDescent_legacy pixelData w =
     (let i = findLastIndex pixelData isBlack in getYPosition_legacy i w)"

section \<open>Metrics\<close>

record metrics =
  ascent :: int
  descent :: int

definition getMetrics :: "8 word list \<Rightarrow> dims \<Rightarrow> metrics" where
  "getMetrics pixelData d =
     \<lparr>ascent = getAscent pixelData (width d), descent = getDescent pixelData (width d)\<rparr>"

definition getHeight :: "metrics \<Rightarrow> int" where
  "getHeight m = descent m - ascent m + 1"

definition getHeight_legacy :: "int \<Rightarrow> int \<Rightarrow> int" where
  "getHeight_legacy descent' ascent' = descent' + 1 - ascent'"

definition toPx :: "host \<Rightarrow> rat \<Rightarrow> rat" where
  "toPx h v = v / DPR h"

definition toDot :: "host \<Rightarrow> rat \<Rightarrow> rat" where
  "toDot h v = v * DPR h"

definition mapValues :: "dims \<Rightarrow> (rat \<Rightarrow> rat) \<Rightarrow> dims" where
  "mapValues d f = \<lparr>width = f (width d), height = f (height d)\<rparr>"

section \<open>Property records\<close>

definition defaults :: obj where
  "defaults =
     [''font-style'' \<mapsto> JStr (js ''normal''),
      ''font-weight'' \<mapsto> JNum 400,
      ''font-size'' \<mapsto> JStr (js ''100px''),
      ''font-family'' \<mapsto> JStr (js ''serif'')]"

text \<open>
  \<open>_.defaults(object, source)\<close> writes the source's value under every name that resolves
  to \<open>undefined\<close> in the object; \<open>_.merge(object, source)\<close> writes every source value that
  is not \<open>undefined\<close> (the values here are strings and numbers, so nothing is merged
  recursively); \<open>_.assign\<close> and \<open>_.set\<close> write the given properties.
\<close>

definition lodash_defaults :: "obj \<Rightarrow> obj \<Rightarrow> obj" where
  "lodash_defaults object source =
     (\<lambda>key. case object key of None \<Rightarrow> source key | Some v \<Rightarrow> Some v)"

definition lodash_merge :: "obj \<Rightarrow> obj \<Rightarrow> obj" where
  "lodash_merge object source =
     (\<lambda>key. case source key of None \<Rightarrow> object key | Some v \<Rightarrow> Some v)"

definition lodash_assign :: "obj \<Rightarrow> obj \<Rightarrow> obj" where
  "lodash_assign object source = object ++ source"

definition lodash_set :: "obj \<Rightarrow> string \<Rightarrow> jsval \<Rightarrow> obj" where
  "lodash_set object key v = object(key \<mapsto> v)"

section \<open>The version 2 module\<close>

text \<open>
  Objects live in a store and are passed by reference: \<open>_.defaults\<close> and \<open>_.assign\<close>
  write into the caller's object. A call returns the reference it returns or the
  exception it throws, together with the store it leaves behind. The rectangle drawn
  over the cap height after the scan and the canvas appended to the container touch
  neither the pixel data already read nor the properties, and are left out.
\<close>

type_synonym ref = nat
type_synonym heap = "ref \<Rightarrow> obj"

text \<open>The constants \<open>dimensions\<close> and \<open>physicalDimensions\<close> of \<open>measureTextHeight\<close>.\<close>

definition dimensions :: "rat \<Rightarrow> jsstring \<Rightarrow> dims" where
  "dimensions fontSize text =
     (let base = MULTIPLIER * fontSize
      in \<lparr>width = base * of_nat (length text), height = base\<rparr>)"

definition physicalDimensions :: "host \<Rightarrow> rat \<Rightarrow> jsstring \<Rightarrow> dims" where
  "physicalDimensions h fontSize text = mapValues (dimensions fontSize text) (toDot h)"

definition measureTextHeight ::
  "host \<Rightarrow> jsstring \<Rightarrow> ref \<Rightarrow> heap \<Rightarrow> (error + ref) \<times> heap" where
  "measureTextHeight h text properties \<sigma> =
     (case getFontSize h (\<sigma> properties) of
        Inl e \<Rightarrow> (Inl e, \<sigma>)
      | Inr fontSize \<Rightarrow>
          if test_whitespace text then (Inl RangeError_whitespace, \<sigma>)
          else
            (case raster h (\<sigma> properties) (physicalDimensions h fontSize text) (DPR h)
                    (dimensions fontSize text) text of
               Inl e \<Rightarrow> (Inl e, \<sigma>)
             | Inr pixelData \<Rightarrow>
                 (let metrics = getMetrics pixelData (physicalDimensions h fontSize text);
                      capHeight = getHeight metrics
                  in (Inr properties,
                      \<sigma>(properties := lodash_assign (\<sigma> properties)
                        [''--cap-height'' \<mapsto> JNum (toPx h (of_int capHeight) / fontSize)])))))"

text \<open>\<open>calculate(properties, text = 'H')\<close>; an omitted text is \<open>None\<close>.\<close>

definition calculate :: "host \<Rightarrow> ref \<Rightarrow> jsstring option \<Rightarrow> heap \<Rightarrow> (error + ref) \<times> heap" where
  "calculate h properties text \<sigma> =
     (let text' = (case text of None \<Rightarrow> js ''H'' | Some t \<Rightarrow> t);
          \<sigma>' = \<sigma>(properties := lodash_defaults (\<sigma> properties) defaults)
      in measureTextHeight h text' properties \<sigma>')"

section \<open>The version 1.1 module\<close>

text \<open>
  \<open>mergeWithDefaults\<close> merges the given properties into a fresh object holding the
  defaults and \<open>calculate\<close> returns that object; the caller's object is only read, so
  this variant is modelled on values. The context is not scaled, and the canvas bitmap
  has the logical size. \<open>text || "H"\<close> replaces an omitted and an empty text.
\<close>

definition mergeWithDefaults :: "obj \<Rightarrow> obj" where
  "mergeWithDefaults properties = lodash_merge defaults properties"

definition textOrH :: "jsstring option \<Rightarrow> jsstring" where
  "textOrH text = (case text of None \<Rightarrow> js ''H'' | Some t \<Rightarrow> if t = [] then js ''H'' else t)"

definition measureTextHeight_legacy :: "host \<Rightarrow> obj \<Rightarrow> jsstring option \<Rightarrow> error + int" where
  "measureTextHeight_legacy h properties text =
     (case getFontSize_legacy h properties of
        Inl e \<Rightarrow> Inl e
      | Inr fontSize \<Rightarrow>
          (let text' = textOrH text
           in if test_whitespace text' then Inl RangeError_whitespace
              else
                (let multiplier = 2;
                     w = multiplier * fontSize * of_nat (length text');
                     ht = multiplier * fontSize
                 in (case raster h properties \<lparr>width = w, height = ht\<rparr> 1
                            \<lparr>width = w, height = ht\<rparr> text' of
                       Inl e \<Rightarrow> Inl e
                     | Inr pixelData \<Rightarrow>
                         (let ascent' = getAscent_legacy pixelData w;
                              descent' = getDescent_legacy pixelData w
                          in Inr (getHeight_legacy descent' ascent'))))))"

definition calculate_legacy :: "host \<Rightarrow> obj \<Rightarrow> jsstring option \<Rightarrow> error + obj" where
  "calculate_legacy h properties text =
     (let properties' = mergeWithDefaults properties
      in (case measureTextHeight_legacy h properties' text of
            Inl e \<Rightarrow> Inl e
          | Inr ht \<Rightarrow>
              (case getFontSize_legacy h properties' of
                 Inl e \<Rightarrow> Inl e
               | Inr fontSize \<Rightarrow>
                   Inr (lodash_set properties' ''cap-height'' (JNum (of_int ht / fontSize))))))"

section \<open>Synthetic buffers and sample hosts\<close>

text \<open>
  The rows of a buffer of row width \<open>W\<close> (in pixels, four channels each) that hold a
  channel value passing the foreground test.
\<close>

definition foregroundRows :: "(8 word \<Rightarrow> bool) \<Rightarrow> 8 word list \<Rightarrow> nat \<Rightarrow> nat set" where
  "foregroundRows fg pixelData W =
     {i div (4 * W) | i. i < length pixelData \<and> fg (pixelData ! i)}"

text \<open>A buffer two pixels wide and four rows high with black pixels in rows 1 and 2.\<close>

definition samplePixels :: "8 word list" where
  "samplePixels =
     [255, 255, 255, 255,  255, 255, 255, 255,
      255, 255, 255, 255,  0, 0, 0, 255,
      0, 0, 0, 255,        255, 255, 255, 255,
      255, 255, 255, 255,  255, 255, 255, 255]"

text \<open>
  A canvas that paints whole rows: row \<open>r\<close> is opaque black where \<open>ink r\<close> holds and
  opaque white elsewhere; reading back a bitmap without a pixel raises the host's
  exception.
\<close>

definition inkPixels :: "(nat \<Rightarrow> bool) \<Rightarrow> nat \<Rightarrow> nat \<Rightarrow> 8 word list" where
  "inkPixels ink W H =
     concat (map (\<lambda>r. concat (replicate W
       (if ink r then [0, 0, 0, 255] else [255, 255, 255, 255]))) [0..<H])"

definition inkHost :: "rat \<Rightarrow> (nat \<Rightarrow> bool) \<Rightarrow> host" where
  "inkHost d ink =
     \<lparr>DPR = d,
      numberToString_other = (\<lambda>q. []),
      raster = (\<lambda>properties bitmap s logical text.
        if width bitmap < 1 \<or> height bitmap < 1 then Inl DOMException
        else Inr (inkPixels ink (nat \<lfloor>width bitmap\<rfloor>) (nat \<lfloor>height bitmap\<rfloor>)))\<rparr>"

text \<open>A host with ink in rows 1 and 2, one without ink, and a record with a font size.\<close>

definition sampleProperties :: obj where
  "sampleProperties = [''font-size'' \<mapsto> JStr (js ''1px'')]"

definition sampleHost :: host where
  "sampleHost = inkHost 2 (\<lambda>r. r = 1 \<or> r = 2)"

definition blankHost :: host where
  "blankHost = inkHost 2 (\<lambda>r. False)"

text \<open>\<open>String.prototype.trim\<close>, for texts that are empty after trimming.\<close>

definition String_trim :: "jsstring \<Rightarrow> jsstring" where
  "String_trim s = rev (dropWhile isSpace (rev (dropWhile isSpace s)))"

section \<open>The scans\<close>

lemma baseFindIndex_none:
  "\<forall>x\<in>set xs. \<not> p x \<Longrightarrow> baseFindIndex p xs i = -1"
  by (induction xs arbitrary: i) auto

lemma baseFindIndex_some:
  "\<exists>x\<in>set xs. p x \<Longrightarrow>
   \<exists>k<length xs. baseFindIndex p xs i = i + int k \<and> p (xs ! k) \<and> (\<forall>j<k. \<not> p (xs ! j))"
proof (induction xs arbitrary: i)
  case Nil
  then show ?case by simp
next
  case (Cons x xs)
  show ?case
  proof (cases "p x")
    case True
    then show ?thesis by (intro exI [of _ 0]) simp
  next
    case False
    with Cons.prems have "\<exists>x\<in>set xs. p x" by simp
    from Cons.IH [OF this, of "i + 1"] obtain k where k: "k < length xs"
      "baseFindIndex p xs (i + 1) = i + 1 + int k" "p (xs ! k)" "\<forall>j<k. \<not> p (xs ! j)"
      by blast
    have "\<forall>j<Suc k. \<not> p ((x # xs) ! j)"
      using False k(4) by (simp add: nth_Cons split: nat.split)
    with k False show ?thesis by (intro exI [of _ "Suc k"]) simp
  qed
qed

lemma findIndex_none: "\<forall>x\<in>set xs. \<not> p x \<Longrightarrow> findIndex xs p = -1"
  by (simp add: findIndex_def baseFindIndex_none)

lemma findIndex_some:
  "\<exists>x\<in>set xs. p x \<Longrightarrow>
   \<exists>k<length xs. findIndex xs p = int k \<and> p (xs ! k) \<and> (\<forall>j<k. \<not> p (xs ! j))"
  using baseFindIndex_some [of xs p 0] by (simp add: findIndex_def)

lemma baseFindLastIndex_none:
  "\<forall>j<n. \<not> p (xs ! j) \<Longrightarrow> baseFindLastIndex p xs n = -1"
  by (induction n) auto

lemma baseFindLastIndex_some:
  "\<exists>j<n. p (xs ! j) \<Longrightarrow>
   \<exists>k<n. baseFindLastIndex p xs n = int k \<and> p (xs ! k) \<and> (\<forall>j<n. k < j \<longrightarrow> \<not> p (xs ! j))"
proof (induction n)
  case 0
  then show ?case by simp
next
  case (Suc n)
  show ?case
  proof (cases "p (xs ! n)")
    case True
    then show ?thesis by (intro exI [of _ n]) simp
  next
    case False
    with Suc.prems have "\<exists>j<n. p (xs ! j)" by (metis less_Suc_eq)
    from Suc.IH [OF this] obtain k where k: "k < n" "baseFindLastIndex p xs n = int k"
      "p (xs ! k)" "\<forall>j<n. k < j \<longrightarrow> \<not> p (xs ! j)" by blast
    have "\<forall>j<Suc n. k < j \<longrightarrow> \<not> p (xs ! j)"
      using False k(4) by (simp add: less_Suc_eq)
    with k False show ?thesis by (intro exI [of _ k]) simp
  qed
qed

lemma findLastIndex_none: "\<forall>x\<in>set xs. \<not> p x \<Longrightarrow> findLastIndex xs p = -1"
  by (simp add: findLastIndex_def baseFindLastIndex_none)

lemma findLastIndex_some:
  "\<exists>x\<in>set xs. p x \<Longrightarrow>
   \<exists>k<length xs. findLastIndex xs p = int k \<and> p (xs ! k) \<and> (\<forall>j<length xs. k < j \<longrightarrow> \<not> p (xs ! j))"
proof -
  assume "\<exists>x\<in>set xs. p x"
  then have "\<exists>j<length xs. p (xs ! j)" by (auto simp: in_set_conv_nth)
  from baseFindLastIndex_some [OF this] show ?thesis by (simp add: findLastIndex_def)
qed

lemma getYPosition_row:
  "0 < W \<Longrightarrow> getYPosition (int k) (of_nat W) = int (k div (4 * W))"
proof -
  assume "0 < W"
  have "(of_int (int k) / 4) / (of_nat W :: rat) = of_nat k / of_nat (4 * W)"
    by simp
  then show ?thesis
    unfolding getYPosition_def by (simp only: floor_divide_of_nat_eq)
qed

lemma getYPosition_legacy_row:
  "0 < W \<Longrightarrow> getYPosition_legacy (int k) (of_nat W) = int (k div (4 * W))"
proof -
  assume "0 < W"
  have "of_int (int k) / ((of_nat W :: rat) * 4) = of_nat k / of_nat (4 * W)"
    by (simp add: mult.commute)
  then show ?thesis
    unfolding getYPosition_legacy_def by (simp only: floor_divide_of_nat_eq)
qed

lemma getYPosition_minus_one:
  "1 / 4 \<le> w \<Longrightarrow> getYPosition (-1) w = -1"
  unfolding getYPosition_def
  by (simp add: floor_eq_iff field_simps)

lemma getYPosition_legacy_minus_one:
  "1 / 4 \<le> w \<Longrightarrow> getYPosition_legacy (-1) w = -1"
  unfolding getYPosition_legacy_def
  by (simp add: floor_eq_iff field_simps)

lemma scan_rows:
  assumes W: "0 < W" and r: "r0 \<le> r1" and rows: "foregroundRows fg px W = {r0..r1}"
  shows "\<exists>a d. findIndex px fg = int a \<and> findLastIndex px fg = int d
           \<and> a div (4 * W) = r0 \<and> d div (4 * W) = r1"
proof -
  have "r0 \<in> foregroundRows fg px W" "r1 \<in> foregroundRows fg px W"
    using r rows by simp_all
  then obtain i0 i1 where i0: "i0 < length px" "fg (px ! i0)" "i0 div (4 * W) = r0"
    and i1: "i1 < length px" "fg (px ! i1)" "i1 div (4 * W) = r1"
    unfolding foregroundRows_def by blast
  have ex: "\<exists>x\<in>set px. fg x" using i0 by (metis nth_mem)
  from findIndex_some [OF ex] obtain a where a: "a < length px" "findIndex px fg = int a"
    "fg (px ! a)" "\<forall>j<a. \<not> fg (px ! j)" by blast
  from findLastIndex_some [OF ex] obtain d where d: "d < length px" "findLastIndex px fg = int d"
    "fg (px ! d)" "\<forall>j<length px. d < j \<longrightarrow> \<not> fg (px ! j)" by blast
  have "a div (4 * W) \<in> foregroundRows fg px W" "d div (4 * W) \<in> foregroundRows fg px W"
    unfolding foregroundRows_def using a d by blast+
  then have lo: "r0 \<le> a div (4 * W)" and hi: "d div (4 * W) \<le> r1"
    using rows by simp_all
  have "a \<le> i0" using a(4) i0(2) by (meson not_le)
  then have "a div (4 * W) \<le> r0" using i0(3) div_le_mono by blast
  moreover have "i1 \<le> d" using d(4) i1(1,2) by (meson not_le)
  then have "r1 \<le> d div (4 * W)" using i1(3) div_le_mono by blast
  ultimately show ?thesis using a(2) d(2) lo hi by (intro exI [of _ a] exI [of _ d]) simp
qed

text \<open>
  C1. Row-mapping round trip. In a pixel buffer of row width \<open>W\<close> in which exactly the
  rows \<open>r0..r1\<close> hold a foreground channel value, the forward scan maps to row \<open>r0\<close>, the
  backward scan to row \<open>r1\<close>, and the height is \<open>r1 - r0 + 1\<close>; under the threshold
  test with \<open>floor((index / 4) / W)\<close> and under the exact test with
  \<open>floor(i / (W * 4))\<close> alike.
\<close>

theorem row_mapping_round_trip:
  assumes W: "0 < W" and r: "r0 \<le> r1"
  shows "(foregroundRows isNotWhite px W = {r0..r1} \<longrightarrow>
            getAscent px (of_nat W) = int r0 \<and> getDescent px (of_nat W) = int r1
          \<and> getHeight (getMetrics px \<lparr>width = of_nat W, height = H\<rparr>) = int r1 - int r0 + 1)
       \<and> (foregroundRows isBlack px W = {r0..r1} \<longrightarrow>
            getAscent_legacy px (of_nat W) = int r0 \<and> getDescent_legacy px (of_nat W) = int r1
          \<and> getHeight_legacy (getDescent_legacy px (of_nat W)) (getAscent_legacy px (of_nat W))
              = int r1 - int r0 + 1)"
proof (intro conjI impI)
  assume rows: "foregroundRows isNotWhite px W = {r0..r1}"
  from scan_rows [OF W r rows] obtain a d where
    ad: "findIndex px isNotWhite = int a" "findLastIndex px isNotWhite = int d"
      "a div (4 * W) = r0" "d div (4 * W) = r1" by blast
  show asc: "getAscent px (of_nat W) = int r0"
    using ad W by (simp add: getAscent_def getYPosition_row)
  show desc: "getDescent px (of_nat W) = int r1"
    using ad W by (simp add: getDescent_def getYPosition_row)
  show "getHeight (getMetrics px \<lparr>width = of_nat W, height = H\<rparr>) = int r1 - int r0 + 1"
    using asc desc by (simp add: getHeight_def getMetrics_def)
next
  assume rows: "foregroundRows isBlack px W = {r0..r1}"
  from scan_rows [OF W r rows] obtain a d where
    ad: "findIndex px isBlack = int a" "findLastIndex px isBlack = int d"
      "a div (4 * W) = r0" "d div (4 * W) = r1" by blast
  show asc: "getAscent_legacy px (of_nat W) = int r0"
    using ad W by (simp add: getAscent_legacy_def getYPosition_legacy_row)
  show desc: "getDescent_legacy px (of_nat W) = int r1"
    using ad W by (simp add: getDescent_legacy_def getYPosition_legacy_row)
  show "getHeight_legacy (getDescent_legacy px (of_nat W)) (getAscent_legacy px (of_nat W))
          = int r1 - int r0 + 1"
    using asc desc by (simp add: getHeight_legacy_def)
qed

lemma foregroundRows_code:
  "foregroundRows fg px W =
     set (map (\<lambda>i. i div (4 * W)) (filter (\<lambda>i. fg (px ! i)) [0..<length px]))"
  unfolding foregroundRows_def by auto

lemma sample_rows:
  "foregroundRows isNotWhite samplePixels 2 = {1..2}"
  "foregroundRows isBlack samplePixels 2 = {1..2}"
  by (auto simp add: foregroundRows_code samplePixels_def isNotWhite_def isBlack_def
      THRESHOLD_def upt_rec)

theorem row_mapping_round_trip_witness:
  "(0::nat) < 2 \<and> (1::nat) \<le> 2
   \<and> foregroundRows isNotWhite samplePixels 2 = {1..2}
   \<and> getAscent samplePixels 2 = 1 \<and> getDescent samplePixels 2 = 2
   \<and> getHeight (getMetrics samplePixels \<lparr>width = 2, height = 4\<rparr>) = 2
   \<and> foregroundRows isBlack samplePixels 2 = {1..2}
   \<and> getAscent_legacy samplePixels 2 = 1 \<and> getDescent_legacy samplePixels 2 = 2
   \<and> getHeight_legacy (getDescent_legacy samplePixels 2) (getAscent_legacy samplePixels 2) = 2"
  using row_mapping_round_trip [of 2 1 2 samplePixels 4] sample_rows
  by (simp add: getHeight_legacy_def)

text \<open>
  C8. The two height formulas, \<open>descent + 1 - ascent\<close> and \<open>descent - ascent + 1\<close>,
  agree on every pair of rows, and a glyph of a single row has height 1 under both.
\<close>

theorem getHeight_variants_agree:
  "getHeight_legacy d a = getHeight \<lparr>ascent = a, descent = d\<rparr>
   \<and> getHeight \<lparr>ascent = r, descent = r\<rparr> = 1
   \<and> getHeight_legacy r r = 1"
  by (simp add: getHeight_def getHeight_legacy_def)

section \<open>Foreground tests\<close>

lemma scan_bounds:
  assumes i: "i < length xs" and p: "p (xs ! i)"
  shows "0 \<le> findIndex xs p \<and> findIndex xs p \<le> int i
       \<and> int i \<le> findLastIndex xs p \<and> findLastIndex xs p < int (length xs)"
proof -
  have ex: "\<exists>x\<in>set xs. p x" using i p by (metis nth_mem)
  from findIndex_some [OF ex] obtain a where a: "a < length xs" "findIndex xs p = int a"
    "\<forall>j<a. \<not> p (xs ! j)" by blast
  from findLastIndex_some [OF ex] obtain d where d: "d < length xs" "findLastIndex xs p = int d"
    "\<forall>j<length xs. d < j \<longrightarrow> \<not> p (xs ! j)" by blast
  have "a \<le> i" using a(3) p by (meson not_le)
  moreover have "i \<le> d" using d(3) i p by (meson not_le)
  ultimately show ?thesis using a(2) d(1,2) by simp
qed

lemma isNotWhite_le: "isNotWhite v \<longleftrightarrow> unat v \<le> 191"
proof -
  have "(of_nat (unat v) :: rat) < 765 / 4 \<longleftrightarrow> unat v \<le> 191"
  proof
    assume "(of_nat (unat v) :: rat) < 765 / 4"
    then have "(of_nat (unat v) :: rat) < of_nat 192" by simp
    then have "unat v < 192" by (simp only: of_nat_less_iff)
    then show "unat v \<le> 191" by simp
  next
    assume "unat v \<le> 191"
    then have "(of_nat (unat v) :: rat) \<le> of_nat 191" by (simp only: of_nat_le_iff)
    then show "(of_nat (unat v) :: rat) < 765 / 4" by simp
  qed
  then show ?thesis by (simp add: isNotWhite_def THRESHOLD_def)
qed

lemma scan_exact:
  "((\<forall>v\<in>set xs. \<not> p v) \<longrightarrow> findIndex xs p = -1 \<and> findLastIndex xs p = -1)
   \<and> ((\<exists>v\<in>set xs. p v) \<longrightarrow>
        0 \<le> findIndex xs p \<and> nat (findIndex xs p) < length xs
        \<and> p (xs ! nat (findIndex xs p))
        \<and> (\<forall>j<nat (findIndex xs p). \<not> p (xs ! j))
        \<and> 0 \<le> findLastIndex xs p \<and> nat (findLastIndex xs p) < length xs
        \<and> p (xs ! nat (findLastIndex xs p))
        \<and> (\<forall>j<length xs. nat (findLastIndex xs p) < j \<longrightarrow> \<not> p (xs ! j)))"
proof (intro conjI impI)
  assume n: "\<forall>v\<in>set xs. \<not> p v"
  show "findIndex xs p = -1" using n by (rule findIndex_none)
  show "findLastIndex xs p = -1" using n by (rule findLastIndex_none)
next
  assume ex: "\<exists>v\<in>set xs. p v"
  from findIndex_some [OF ex] obtain a where a: "a < length xs" "findIndex xs p = int a"
    "p (xs ! a)" "\<forall>j<a. \<not> p (xs ! j)" by blast
  from findLastIndex_some [OF ex] obtain d where d: "d < length xs"
    "findLastIndex xs p = int d" "p (xs ! d)" "\<forall>j<length xs. d < j \<longrightarrow> \<not> p (xs ! j)"
    by blast
  show "0 \<le> findIndex xs p" "nat (findIndex xs p) < length xs"
    "p (xs ! nat (findIndex xs p))" "\<forall>j<nat (findIndex xs p). \<not> p (xs ! j)"
    using a by simp_all
  show "0 \<le> findLastIndex xs p" "nat (findLastIndex xs p) < length xs"
    "p (xs ! nat (findLastIndex xs p))"
    "\<forall>j<length xs. nat (findLastIndex xs p) < j \<longrightarrow> \<not> p (xs ! j)"
    using d by simp_all
qed

text \<open>
  C6. The foreground tests: the exact test accepts a channel value iff it is 0, the
  threshold test iff it is below \<open>255 * 0.75 = 191.25\<close> (for a channel value, at most
  191). The scans apply the test to the channel values one by one, whatever their place
  in a pixel: when no value passes both scans return -1; otherwise the forward scan
  returns the first index whose value passes and the backward scan the last one, so
  that whichever index holds a passing value lies between the two. The ascent and the
  descent are the rows of these two indices.
\<close>

theorem foreground_predicates:
  "(isBlack v \<longleftrightarrow> v = 0)
   \<and> (isNotWhite v \<longleftrightarrow> of_nat (unat v) < (191.25 :: rat))
   \<and> 255 * THRESHOLD = (191.25 :: rat)
   \<and> (isNotWhite v \<longleftrightarrow> unat v \<le> 191)
   \<and> (i < length px \<and> isNotWhite (px ! i) \<longrightarrow>
        0 \<le> findIndex px isNotWhite \<and> findIndex px isNotWhite \<le> int i
        \<and> int i \<le> findLastIndex px isNotWhite)
   \<and> (i < length px \<and> isBlack (px ! i) \<longrightarrow>
        0 \<le> findIndex px isBlack \<and> findIndex px isBlack \<le> int i
        \<and> int i \<le> findLastIndex px isBlack)
   \<and> ((\<forall>c\<in>set px. \<not> isNotWhite c) \<longrightarrow>
        findIndex px isNotWhite = -1 \<and> findLastIndex px isNotWhite = -1)
   \<and> ((\<exists>c\<in>set px. isNotWhite c) \<longrightarrow>
        0 \<le> findIndex px isNotWhite \<and> nat (findIndex px isNotWhite) < length px
        \<and> isNotWhite (px ! nat (findIndex px isNotWhite))
        \<and> (\<forall>j<nat (findIndex px isNotWhite). \<not> isNotWhite (px ! j))
        \<and> 0 \<le> findLastIndex px isNotWhite \<and> nat (findLastIndex px isNotWhite) < length px
        \<and> isNotWhite (px ! nat (findLastIndex px isNotWhite))
        \<and> (\<forall>j<length px. nat (findLastIndex px isNotWhite) < j \<longrightarrow> \<not> isNotWhite (px ! j)))
   \<and> ((\<forall>c\<in>set px. \<not> isBlack c) \<longrightarrow>
        findIndex px isBlack = -1 \<and> findLastIndex px isBlack = -1)
   \<and> ((\<exists>c\<in>set px. isBlack c) \<longrightarrow>
        0 \<le> findIndex px isBlack \<and> nat (findIndex px isBlack) < length px
        \<and> isBlack (px ! nat (findIndex px isBlack))
        \<and> (\<forall>j<nat (findIndex px isBlack). \<not> isBlack (px ! j))
        \<and> 0 \<le> findLastIndex px isBlack \<and> nat (findLastIndex px isBlack) < length px
        \<and> isBlack (px ! nat (findLastIndex px isBlack))
        \<and> (\<forall>j<length px. nat (findLastIndex px isBlack) < j \<longrightarrow> \<not> isBlack (px ! j)))
   \<and> getAscent px w = getYPosition (findIndex px isNotWhite) w
   \<and> getDescent px w = getYPosition (findLastIndex px isNotWhite) w
   \<and> getAscent_legacy px w = getYPosition_legacy (findIndex px isBlack) w
   \<and> getDescent_legacy px w = getYPosition_legacy (findLastIndex px isBlack) w"
proof -
  have t: "(isBlack v \<longleftrightarrow> v = 0)
      \<and> (isNotWhite v \<longleftrightarrow> of_nat (unat v) < (191.25 :: rat))
      \<and> 255 * THRESHOLD = (191.25 :: rat)
      \<and> (isNotWhite v \<longleftrightarrow> unat v \<le> 191)"
    using isNotWhite_le [of v] by (simp add: isBlack_def isNotWhite_def THRESHOLD_def)
  have b: "i < length px \<and> p (px ! i) \<longrightarrow>
        0 \<le> findIndex px p \<and> findIndex px p \<le> int i \<and> int i \<le> findLastIndex px p" for p
    using scan_bounds [of i px p] by blast
  have g: "getAscent px w = getYPosition (findIndex px isNotWhite) w
      \<and> getDescent px w = getYPosition (findLastIndex px isNotWhite) w
      \<and> getAscent_legacy px w = getYPosition_legacy (findIndex px isBlack) w
      \<and> getDescent_legacy px w = getYPosition_legacy (findLastIndex px isBlack) w"
    by (simp add: getAscent_def getDescent_def getAscent_legacy_def getDescent_legacy_def)
  note n = scan_exact [of px isNotWhite]
  note k = scan_exact [of px isBlack]
  from t b [of isNotWhite] b [of isBlack] n k g show ?thesis by blast
qed

lemma sample_scans:
  "findIndex samplePixels isNotWhite = 12" "findLastIndex samplePixels isNotWhite = 18"
  "findIndex samplePixels isBlack = 12" "findLastIndex samplePixels isBlack = 18"
  "findIndex [255, 255, 255, 255] isNotWhite = -1"
  "findLastIndex [255, 255, 255, 255] isBlack = -1"
  "samplePixels ! 11 = 255" "samplePixels ! 12 = 0" "samplePixels ! 18 = 0"
  "samplePixels ! 19 = 255" "length samplePixels = 32"
  by code_simp+

theorem foreground_predicates_witness:
  "isBlack 0 \<and> \<not> isBlack 1 \<and> isNotWhite 191 \<and> \<not> isNotWhite 192
   \<and> (15::nat) < length samplePixels \<and> \<not> isNotWhite (samplePixels ! 15)
   \<and> (14::nat) < length samplePixels \<and> isNotWhite (samplePixels ! 14)
   \<and> isBlack (samplePixels ! 14)
   \<and> findIndex samplePixels isNotWhite \<le> 14 \<and> 14 \<le> findLastIndex samplePixels isNotWhite
   \<and> findIndex samplePixels isBlack \<le> 14 \<and> 14 \<le> findLastIndex samplePixels isBlack
   \<and> list_ex isNotWhite samplePixels \<and> list_ex isBlack samplePixels
   \<and> findIndex samplePixels isNotWhite = 12 \<and> findLastIndex samplePixels isNotWhite = 18
   \<and> findIndex samplePixels isBlack = 12 \<and> findLastIndex samplePixels isBlack = 18
   \<and> isNotWhite (samplePixels ! 12) \<and> \<not> isNotWhite (samplePixels ! 11)
   \<and> isNotWhite (samplePixels ! 18) \<and> \<not> isNotWhite (samplePixels ! 19)
   \<and> \<not> list_ex isNotWhite [255, 255, 255, 255]
   \<and> findIndex [255, 255, 255, 255] isNotWhite = -1
   \<and> findLastIndex [255, 255, 255, 255] isBlack = -1"
proof -
  have s: "(14::nat) < length samplePixels" "(15::nat) < length samplePixels"
    "samplePixels ! 14 = 0" "samplePixels ! 15 = 255"
    by (simp_all add: samplePixels_def)
  have n: "isNotWhite 0" "\<not> isNotWhite 255" "isNotWhite 191" "\<not> isNotWhite 192"
    using foreground_predicates [of 0] foreground_predicates [of 255]
      foreground_predicates [of 191] foreground_predicates [of 192] by simp_all
  have b: "isBlack 0" "\<not> isBlack 1" "\<not> isBlack 255"
    using foreground_predicates [of 0] foreground_predicates [of 1]
      foreground_predicates [of 255] by simp_all
  have "samplePixels ! 14 \<in> set samplePixels" using s(1) by (rule nth_mem)
  then have m: "0 \<in> set samplePixels" by (simp only: s(3))
  have e: "list_ex isNotWhite samplePixels" "list_ex isBlack samplePixels"
    using m n b by (auto simp: list_ex_iff)
  have w: "\<not> list_ex isNotWhite [255, 255, 255, 255]" using n by simp
  show ?thesis
    using foreground_predicates [of 0 14 samplePixels 2] s n b e w sample_scans by simp
qed

section \<open>Font-size extraction\<close>

lemma digitValue_zero: "isDigit c \<Longrightarrow> digitValue c = 0 \<longleftrightarrow> c = 0x30"
proof -
  assume "isDigit c"
  then have "48 \<le> unat c" by (simp add: isDigit_def word_le_nat_alt)
  moreover have "unat c = 48 \<longleftrightarrow> c = 48"
    by (simp add: word_unat_eq_iff)
  ultimately show ?thesis by (auto simp: digitValue_def)
qed

lemma foldl_decimal_zero:
  "\<forall>c\<in>set ds. isDigit c \<Longrightarrow>
   foldl (\<lambda>a c. 10 * a + digitValue c) a ds = 0 \<longleftrightarrow> a = 0 \<and> (\<forall>c\<in>set ds. c = 0x30)"
  by (induction ds arbitrary: a) (auto simp: digitValue_zero)

lemma decimalValue_zero:
  "\<forall>c\<in>set ds. isDigit c \<Longrightarrow> decimalValue ds = 0 \<longleftrightarrow> (\<forall>c\<in>set ds. c = 0x30)"
  by (simp add: decimalValue_def foldl_decimal_zero)

lemma takeWhile_digits: "\<forall>c\<in>set ds. isDigit c \<Longrightarrow> takeWhile isDigit ds = ds"
  by (simp add: takeWhile_eq_all_conv)

lemma parseFloat_digits:
  "\<forall>c\<in>set ds. isDigit c \<Longrightarrow>
   parseFloat ds = (if ds = [] then None else Some (of_nat (decimalValue ds)))"
  by (simp add: parseFloat_def takeWhile_digits)

lemma toNumber_digits:
  "\<forall>c\<in>set ds. isDigit c \<Longrightarrow> toNumber ds = Some (of_nat (decimalValue ds))"
  by (simp add: toNumber_def takeWhile_digits decimalValue_def)

lemma checkFontSize_Inr: "checkFontSize x = Inr n \<longleftrightarrow> x = Some n \<and> n \<noteq> 0"
  by (auto simp: checkFontSize_def split: option.splits)

lemma checkFontSize_Inl:
  "(\<exists>e. InvalidFontSize e \<and> checkFontSize x = Inl e) \<longleftrightarrow> x = None \<or> x = Some 0"
  by (auto simp: checkFontSize_def InvalidFontSize_def split: option.splits)

text \<open>
  C3. Font-size extraction. With \<open>ds\<close> the digits left of the font-size value (0 when
  the property is missing), extraction fails with one of the two font-size errors
  exactly when the parsed number is \<open>NaN\<close> or 0, and returns the parsed number
  otherwise; the parsed number is the decimal value of \<open>ds\<close>, \<open>NaN\<close> under
  \<open>parseFloat\<close> and 0 under \<open>toNumber\<close> when \<open>ds\<close> is empty, and it is 0
  iff every digit is a zero.
\<close>

theorem font_size_extraction:
  "let ds = replace_nonDigits (toString h (lodash_get props ''font-size'' (JNum 0))) in
     (\<forall>c\<in>set ds. isDigit c)
   \<and> ((\<exists>e. InvalidFontSize e \<and> getFontSize_legacy h props = Inl e)
        \<longleftrightarrow> parseFloat ds = None \<or> parseFloat ds = Some 0)
   \<and> (getFontSize_legacy h props = Inr n \<longleftrightarrow> parseFloat ds = Some n \<and> n \<noteq> 0)
   \<and> ((\<exists>e. InvalidFontSize e \<and> getFontSize h props = Inl e)
        \<longleftrightarrow> toNumber ds = None \<or> toNumber ds = Some 0)
   \<and> (getFontSize h props = Inr n \<longleftrightarrow> toNumber ds = Some n \<and> n \<noteq> 0)
   \<and> parseFloat ds = (if ds = [] then None else Some (of_nat (decimalValue ds)))
   \<and> toNumber ds = Some (of_nat (decimalValue ds))
   \<and> (decimalValue ds = 0 \<longleftrightarrow> (\<forall>c\<in>set ds. c = 0x30))"
proof -
  define ds where "ds = replace_nonDigits (toString h (lodash_get props ''font-size'' (JNum 0)))"
  have d: "\<forall>c\<in>set ds. isDigit c" by (simp add: ds_def replace_nonDigits_def)
  have l: "getFontSize_legacy h props = checkFontSize (parseFloat ds)"
    by (simp add: getFontSize_legacy_def ds_def)
  have m: "getFontSize h props = checkFontSize (toNumber ds)"
    by (simp add: getFontSize_def ds_def)
  have "(\<forall>c\<in>set ds. isDigit c)
   \<and> ((\<exists>e. InvalidFontSize e \<and> getFontSize_legacy h props = Inl e)
        \<longleftrightarrow> parseFloat ds = None \<or> parseFloat ds = Some 0)
   \<and> (getFontSize_legacy h props = Inr n \<longleftrightarrow> parseFloat ds = Some n \<and> n \<noteq> 0)
   \<and> ((\<exists>e. InvalidFontSize e \<and> getFontSize h props = Inl e)
        \<longleftrightarrow> toNumber ds = None \<or> toNumber ds = Some 0)
   \<and> (getFontSize h props = Inr n \<longleftrightarrow> toNumber ds = Some n \<and> n \<noteq> 0)
   \<and> parseFloat ds = (if ds = [] then None else Some (of_nat (decimalValue ds)))
   \<and> toNumber ds = Some (of_nat (decimalValue ds))
   \<and> (decimalValue ds = 0 \<longleftrightarrow> (\<forall>c\<in>set ds. c = 0x30))"
    unfolding l m checkFontSize_Inl checkFontSize_Inr
    using d parseFloat_digits [OF d] toNumber_digits [OF d] decimalValue_zero [OF d]
    by simp
  then show ?thesis unfolding ds_def Let_def .
qed

lemma font_size_examples:
  "getFontSize_legacy (inkHost 1 (\<lambda>r. False)) [''font-size'' \<mapsto> JStr (js ''0px'')]
     = Inl RangeError_font_size_zero"
  "getFontSize (inkHost 1 (\<lambda>r. False)) [''font-size'' \<mapsto> JStr (js ''0px'')]
     = Inl RangeError_font_size_zero"
  "getFontSize_legacy (inkHost 1 (\<lambda>r. False)) [''font-size'' \<mapsto> JStr (js ''abcpx'')]
     = Inl RangeError_invalid_font_size"
  "getFontSize (inkHost 1 (\<lambda>r. False)) [''font-size'' \<mapsto> JStr (js ''abcpx'')]
     = Inl RangeError_font_size_zero"
  "getFontSize_legacy (inkHost 1 (\<lambda>r. False)) Map.empty = Inl RangeError_font_size_zero"
  "getFontSize (inkHost 1 (\<lambda>r. False)) Map.empty = Inl RangeError_font_size_zero"
  "getFontSize_legacy (inkHost 1 (\<lambda>r. False)) [''font-size'' \<mapsto> JStr (js ''100px'')]
     = Inr 100"
  "getFontSize (inkHost 1 (\<lambda>r. False)) [''font-size'' \<mapsto> JStr (js ''100px'')]
     = Inr 100"
  by code_simp+

theorem font_size_extraction_witness:
  "getFontSize_legacy (inkHost 1 (\<lambda>r. False)) [''font-size'' \<mapsto> JStr (js ''0px'')]
     = Inl RangeError_font_size_zero
   \<and> getFontSize (inkHost 1 (\<lambda>r. False)) [''font-size'' \<mapsto> JStr (js ''0px'')]
     = Inl RangeError_font_size_zero
   \<and> getFontSize_legacy (inkHost 1 (\<lambda>r. False)) [''font-size'' \<mapsto> JStr (js ''abcpx'')]
     = Inl RangeError_invalid_font_size
   \<and> getFontSize (inkHost 1 (\<lambda>r. False)) [''font-size'' \<mapsto> JStr (js ''abcpx'')]
     = Inl RangeError_font_size_zero
   \<and> getFontSize_legacy (inkHost 1 (\<lambda>r. False)) Map.empty = Inl RangeError_font_size_zero
   \<and> getFontSize (inkHost 1 (\<lambda>r. False)) Map.empty = Inl RangeError_font_size_zero
   \<and> getFontSize_legacy (inkHost 1 (\<lambda>r. False)) [''font-size'' \<mapsto> JStr (js ''100px'')]
     = Inr 100
   \<and> getFontSize (inkHost 1 (\<lambda>r. False)) [''font-size'' \<mapsto> JStr (js ''100px'')]
     = Inr 100
   \<and> InvalidFontSize RangeError_font_size_zero
   \<and> InvalidFontSize RangeError_invalid_font_size"
  using font_size_extraction [of "inkHost 1 (\<lambda>r. False)"
      "[''font-size'' \<mapsto> JStr (js ''100px'')]" 100] font_size_examples
  by (simp add: InvalidFontSize_def)

section \<open>Calculation\<close>

lemma getFontSize_pos: "getFontSize h props = Inr f \<Longrightarrow> 0 < f"
proof -
  assume a: "getFontSize h props = Inr f"
  define ds where "ds = replace_nonDigits (toString h (lodash_get props ''font-size'' (JNum 0)))"
  have d: "\<forall>c\<in>set ds. isDigit c" by (simp add: ds_def replace_nonDigits_def)
  from a have "checkFontSize (toNumber ds) = Inr f" by (simp add: getFontSize_def ds_def)
  then have "f = of_nat (decimalValue ds)" "f \<noteq> 0"
    using toNumber_digits [OF d] by (simp_all add: checkFontSize_Inr)
  then show ?thesis by simp
qed

lemma getFontSize_legacy_pos: "getFontSize_legacy h props = Inr f \<Longrightarrow> 0 < f"
proof -
  assume a: "getFontSize_legacy h props = Inr f"
  define ds where "ds = replace_nonDigits (toString h (lodash_get props ''font-size'' (JNum 0)))"
  have d: "\<forall>c\<in>set ds. isDigit c" by (simp add: ds_def replace_nonDigits_def)
  from a have "checkFontSize (parseFloat ds) = Inr f"
    by (simp add: getFontSize_legacy_def ds_def)
  then have "f = of_nat (decimalValue ds)" "f \<noteq> 0"
    using parseFloat_digits [OF d] by (simp_all add: checkFontSize_Inr split: if_splits)
  then show ?thesis by simp
qed

lemma measureTextHeight_raster:
  assumes "getFontSize h (\<sigma> p) = Inr f" and "\<not> test_whitespace t"
  shows "measureTextHeight h t p \<sigma> =
    (case raster h (\<sigma> p) (physicalDimensions h f t) (DPR h) (dimensions f t) t of
       Inl e \<Rightarrow> (Inl e, \<sigma>)
     | Inr px \<Rightarrow>
         (Inr p, \<sigma>(p := (\<sigma> p)(''--cap-height'' \<mapsto>
            JNum (of_int (getHeight (getMetrics px (physicalDimensions h f t))) / DPR h / f)))))"
  using assms
  by (simp add: measureTextHeight_def Let_def toPx_def lodash_assign_def split: sum.splits)

lemma measureTextHeight_legacy_raster:
  assumes "getFontSize_legacy h props = Inr f" and "\<not> test_whitespace (textOrH tx)"
  shows "measureTextHeight_legacy h props tx =
    (case raster h props
            \<lparr>width = 2 * f * of_nat (length (textOrH tx)), height = 2 * f\<rparr> 1
            \<lparr>width = 2 * f * of_nat (length (textOrH tx)), height = 2 * f\<rparr> (textOrH tx) of
       Inl e \<Rightarrow> Inl e
     | Inr px \<Rightarrow>
         Inr (getHeight_legacy
           (getDescent_legacy px (2 * f * of_nat (length (textOrH tx))))
           (getAscent_legacy px (2 * f * of_nat (length (textOrH tx))))))"
  using assms
  by (simp add: measureTextHeight_legacy_def Let_def split: sum.splits)

lemma lodash_defaults_idem [simp]: "lodash_defaults defaults defaults = defaults"
  by (rule ext) (simp add: lodash_defaults_def split: option.splits)

lemma lodash_defaults_empty [simp]: "lodash_defaults Map.empty d = d"
  by (rule ext) (simp add: lodash_defaults_def)

lemma mergeWithDefaults_empty [simp]: "mergeWithDefaults Map.empty = defaults"
  by (rule ext) (simp add: mergeWithDefaults_def lodash_merge_def)

lemma mergeWithDefaults_defaults [simp]: "mergeWithDefaults defaults = defaults"
  by (rule ext) (simp add: mergeWithDefaults_def lodash_merge_def split: option.splits)

lemma measureTextHeight_frame:
  "measureTextHeight h t p \<sigma> = (res, \<sigma>') \<Longrightarrow> key \<noteq> ''--cap-height'' \<Longrightarrow>
   \<sigma>' p key = \<sigma> p key"
  by (auto simp: measureTextHeight_def Let_def lodash_assign_def
      split: sum.splits if_splits)

lemma textOrH_None: "textOrH None = textOrH (Some (js ''H''))"
  by (simp add: textOrH_def js_def)

lemma measureTextHeight_legacy_text:
  "measureTextHeight_legacy h props None = measureTextHeight_legacy h props (Some (js ''H''))"
  unfolding measureTextHeight_legacy_def textOrH_None ..

text \<open>
  C7. Default fill. \<open>calculate({})\<close> is \<open>calculate\<close> of the spelled-out defaults with the
  text \<open>"H"\<close>, in both variants; the defaults are the four fixed properties; every
  property that resolves to \<open>undefined\<close> in the input is read from the defaults and
  every other one keeps the input's value, in the merged record and, apart from the
  cap-height property itself, in the record \<open>calculate\<close> leaves behind.
\<close>

theorem default_fill:
  "calculate h p None (\<sigma>(p := Map.empty)) = calculate h p (Some (js ''H'')) (\<sigma>(p := defaults))
   \<and> calculate_legacy h Map.empty None = calculate_legacy h defaults (Some (js ''H''))
   \<and> defaults = [''font-style'' \<mapsto> JStr (js ''normal''), ''font-weight'' \<mapsto> JNum 400,
        ''font-size'' \<mapsto> JStr (js ''100px''), ''font-family'' \<mapsto> JStr (js ''serif'')]
   \<and> lodash_defaults props defaults key
       = (case props key of Some v \<Rightarrow> Some v | None \<Rightarrow> defaults key)
   \<and> mergeWithDefaults props key
       = (case props key of Some v \<Rightarrow> Some v | None \<Rightarrow> defaults key)
   \<and> (key \<noteq> ''--cap-height'' \<longrightarrow>
        snd (calculate h p tx \<sigma>) p key
          = (case \<sigma> p key of Some v \<Rightarrow> Some v | None \<Rightarrow> defaults key))
   \<and> (key \<noteq> ''cap-height'' \<and> calculate_legacy h props tx = Inr m \<longrightarrow>
        m key = (case props key of Some v \<Rightarrow> Some v | None \<Rightarrow> defaults key))"
proof (intro conjI impI)
  show "calculate h p None (\<sigma>(p := Map.empty))
      = calculate h p (Some (js ''H'')) (\<sigma>(p := defaults))"
    by (simp add: calculate_def Let_def)
  show "calculate_legacy h Map.empty None = calculate_legacy h defaults (Some (js ''H''))"
    by (simp add: calculate_legacy_def Let_def measureTextHeight_legacy_text)
  show "defaults = [''font-style'' \<mapsto> JStr (js ''normal''), ''font-weight'' \<mapsto> JNum 400,
        ''font-size'' \<mapsto> JStr (js ''100px''), ''font-family'' \<mapsto> JStr (js ''serif'')]"
    by (simp add: defaults_def)
  show "lodash_defaults props defaults key
       = (case props key of Some v \<Rightarrow> Some v | None \<Rightarrow> defaults key)"
    by (simp add: lodash_defaults_def split: option.splits)
  show "mergeWithDefaults props key
       = (case props key of Some v \<Rightarrow> Some v | None \<Rightarrow> defaults key)"
    by (simp add: mergeWithDefaults_def lodash_merge_def split: option.splits)
next
  assume k: "key \<noteq> ''--cap-height''"
  obtain res \<sigma>' where r: "calculate h p tx \<sigma> = (res, \<sigma>')" by (cases "calculate h p tx \<sigma>")
  then have "measureTextHeight h (case tx of None \<Rightarrow> js ''H'' | Some t \<Rightarrow> t) p
      (\<sigma>(p := lodash_defaults (\<sigma> p) defaults)) = (res, \<sigma>')"
    by (simp add: calculate_def Let_def)
  from measureTextHeight_frame [OF this k]
  show "snd (calculate h p tx \<sigma>) p key
          = (case \<sigma> p key of Some v \<Rightarrow> Some v | None \<Rightarrow> defaults key)"
    using r by (simp add: lodash_defaults_def split: option.splits)
next
  assume "key \<noteq> ''cap-height'' \<and> calculate_legacy h props tx = Inr m"
  then show "m key = (case props key of Some v \<Rightarrow> Some v | None \<Rightarrow> defaults key)"
    by (auto simp: calculate_legacy_def Let_def lodash_set_def mergeWithDefaults_def
        lodash_merge_def split: sum.splits option.splits)
qed


text \<open>
  C2. The published ratio. \<open>toPx\<close> divides by the device pixel ratio, and where the
  font size is \<open>f\<close> and the scan of the pixel data gives the height, the number stored
  under \<open>--cap-height\<close> is \<open>(height / DPR) / f\<close>, with \<open>f > 0\<close>. The version 1.1 module
  scans a bitmap of the logical size and stores \<open>height / f\<close> under \<open>cap-height\<close>,
  the same formula at pixel ratio 1.
\<close>

theorem cap_height_ratio:
  "toPx h v = v / DPR h
   \<and> (0 < DPR h \<and> getFontSize h (\<sigma> p) = Inr f \<and> \<not> test_whitespace t
       \<and> raster h (\<sigma> p) (physicalDimensions h f t) (DPR h) (dimensions f t) t = Inr px \<longrightarrow>
       0 < f
       \<and> fst (measureTextHeight h t p \<sigma>) = Inr p
       \<and> snd (measureTextHeight h t p \<sigma>) p ''--cap-height''
           = Some (JNum ((of_int (getHeight (getMetrics px (physicalDimensions h f t))) / DPR h) / f)))
   \<and> (getFontSize_legacy h (mergeWithDefaults props) = Inr f' \<and> \<not> test_whitespace (textOrH tx)
       \<and> raster h (mergeWithDefaults props)
            \<lparr>width = 2 * f' * of_nat (length (textOrH tx)), height = 2 * f'\<rparr> 1
            \<lparr>width = 2 * f' * of_nat (length (textOrH tx)), height = 2 * f'\<rparr> (textOrH tx)
           = Inr px' \<longrightarrow>
       0 < f'
       \<and> calculate_legacy h props tx
           = Inr ((mergeWithDefaults props)(''cap-height'' \<mapsto>
               JNum ((of_int (getHeight_legacy
                 (getDescent_legacy px' (2 * f' * of_nat (length (textOrH tx))))
                 (getAscent_legacy px' (2 * f' * of_nat (length (textOrH tx))))) / 1) / f'))))"
proof (intro conjI impI)
  show "toPx h v = v / DPR h" by (simp add: toPx_def)
next
  assume a: "0 < DPR h \<and> getFontSize h (\<sigma> p) = Inr f \<and> \<not> test_whitespace t
       \<and> raster h (\<sigma> p) (physicalDimensions h f t) (DPR h) (dimensions f t) t = Inr px"
  then show "0 < f" using getFontSize_pos by blast
  from a have f: "getFontSize h (\<sigma> p) = Inr f" and w: "\<not> test_whitespace t" by simp_all
  from a show "fst (measureTextHeight h t p \<sigma>) = Inr p"
    by (simp add: measureTextHeight_raster [where \<sigma>=\<sigma> and p=p, OF f w])
  from a show "snd (measureTextHeight h t p \<sigma>) p ''--cap-height''
           = Some (JNum ((of_int (getHeight (getMetrics px (physicalDimensions h f t))) / DPR h) / f))"
    by (simp add: measureTextHeight_raster [where \<sigma>=\<sigma> and p=p, OF f w])
next
  assume a: "getFontSize_legacy h (mergeWithDefaults props) = Inr f' \<and> \<not> test_whitespace (textOrH tx)
       \<and> raster h (mergeWithDefaults props)
            \<lparr>width = 2 * f' * of_nat (length (textOrH tx)), height = 2 * f'\<rparr> 1
            \<lparr>width = 2 * f' * of_nat (length (textOrH tx)), height = 2 * f'\<rparr> (textOrH tx)
           = Inr px'"
  then show "0 < f'" using getFontSize_legacy_pos by blast
  from a have f: "getFontSize_legacy h (mergeWithDefaults props) = Inr f'"
    and w: "\<not> test_whitespace (textOrH tx)" by simp_all
  from a show "calculate_legacy h props tx
           = Inr ((mergeWithDefaults props)(''cap-height'' \<mapsto>
               JNum ((of_int (getHeight_legacy
                 (getDescent_legacy px' (2 * f' * of_nat (length (textOrH tx))))
                 (getAscent_legacy px' (2 * f' * of_nat (length (textOrH tx))))) / 1) / f')))"
    by (simp add: calculate_legacy_def Let_def measureTextHeight_legacy_raster [OF f w]
        lodash_set_def)
qed

text \<open>
  C5. Raster geometry. For font size \<open>f\<close> and text \<open>t\<close> the logical dimensions are
  \<open>2 * f * length t\<close> by \<open>2 * f\<close> and the physical dimensions are these times the device
  pixel ratio; with a valid font size and a text without whitespace \<open>measureTextHeight\<close>
  rasterises and scans at exactly these sizes. The version 1.1 module uses the logical
  size for the bitmap.
\<close>

theorem raster_geometry:
  "dimensions f t = \<lparr>width = 2 * f * of_nat (length t), height = 2 * f\<rparr>
   \<and> physicalDimensions h f t
       = \<lparr>width = 2 * f * of_nat (length t) * DPR h, height = 2 * f * DPR h\<rparr>
   \<and> (getFontSize h (\<sigma> p) = Inr f \<and> \<not> test_whitespace t \<longrightarrow>
        0 < f
        \<and> measureTextHeight h t p \<sigma> =
           (case raster h (\<sigma> p)
                   \<lparr>width = 2 * f * of_nat (length t) * DPR h, height = 2 * f * DPR h\<rparr>
                   (DPR h)
                   \<lparr>width = 2 * f * of_nat (length t), height = 2 * f\<rparr> t of
              Inl e \<Rightarrow> (Inl e, \<sigma>)
            | Inr px \<Rightarrow>
                (Inr p, \<sigma>(p := lodash_assign (\<sigma> p) [''--cap-height'' \<mapsto> JNum (toPx h (of_int
                   (getHeight (getMetrics px
                     \<lparr>width = 2 * f * of_nat (length t) * DPR h, height = 2 * f * DPR h\<rparr>)))
                   / f)]))))
   \<and> (getFontSize_legacy h props = Inr f \<and> \<not> test_whitespace (textOrH tx) \<longrightarrow>
        0 < f
        \<and> measureTextHeight_legacy h props tx =
           (case raster h props
                   \<lparr>width = 2 * f * of_nat (length (textOrH tx)), height = 2 * f\<rparr> 1
                   \<lparr>width = 2 * f * of_nat (length (textOrH tx)), height = 2 * f\<rparr>
                   (textOrH tx) of
              Inl e \<Rightarrow> Inl e
            | Inr px \<Rightarrow>
                Inr (getHeight_legacy
                  (getDescent_legacy px (2 * f * of_nat (length (textOrH tx))))
                  (getAscent_legacy px (2 * f * of_nat (length (textOrH tx)))))))"
proof (intro conjI impI)
  show d: "dimensions f t = \<lparr>width = 2 * f * of_nat (length t), height = 2 * f\<rparr>"
    by (simp add: dimensions_def Let_def MULTIPLIER_def)
  show pd: "physicalDimensions h f t
       = \<lparr>width = 2 * f * of_nat (length t) * DPR h, height = 2 * f * DPR h\<rparr>"
    by (simp add: physicalDimensions_def mapValues_def toDot_def d)
  {
    assume a: "getFontSize h (\<sigma> p) = Inr f \<and> \<not> test_whitespace t"
    then show "0 < f" using getFontSize_pos by blast
    from a have f: "getFontSize h (\<sigma> p) = Inr f" and w: "\<not> test_whitespace t" by simp_all
    show "measureTextHeight h t p \<sigma> =
           (case raster h (\<sigma> p)
                   \<lparr>width = 2 * f * of_nat (length t) * DPR h, height = 2 * f * DPR h\<rparr>
                   (DPR h)
                   \<lparr>width = 2 * f * of_nat (length t), height = 2 * f\<rparr> t of
              Inl e \<Rightarrow> (Inl e, \<sigma>)
            | Inr px \<Rightarrow>
                (Inr p, \<sigma>(p := lodash_assign (\<sigma> p) [''--cap-height'' \<mapsto> JNum (toPx h (of_int
                   (getHeight (getMetrics px
                     \<lparr>width = 2 * f * of_nat (length t) * DPR h, height = 2 * f * DPR h\<rparr>)))
                   / f)])))"
      unfolding measureTextHeight_raster [where \<sigma>=\<sigma> and p=p, OF f w] pd d
      by (simp add: lodash_assign_def toPx_def split: sum.splits)
  }
  {
    assume a: "getFontSize_legacy h props = Inr f \<and> \<not> test_whitespace (textOrH tx)"
    then show "0 < f" using getFontSize_legacy_pos by blast
    from a have f: "getFontSize_legacy h props = Inr f"
      and w: "\<not> test_whitespace (textOrH tx)" by simp_all
    show "measureTextHeight_legacy h props tx =
           (case raster h props
                   \<lparr>width = 2 * f * of_nat (length (textOrH tx)), height = 2 * f\<rparr> 1
                   \<lparr>width = 2 * f * of_nat (length (textOrH tx)), height = 2 * f\<rparr>
                   (textOrH tx) of
              Inl e \<Rightarrow> Inl e
            | Inr px \<Rightarrow>
                Inr (getHeight_legacy
                  (getDescent_legacy px (2 * f * of_nat (length (textOrH tx))))
                  (getAscent_legacy px (2 * f * of_nat (length (textOrH tx))))))"
      by (rule measureTextHeight_legacy_raster [OF f w])
  }
qed

lemma scan_blank_height:
  assumes "\<forall>v\<in>set px. \<not> fg v"
  shows "findIndex px fg = -1" "findLastIndex px fg = -1"
  using assms by (simp_all add: findIndex_none findLastIndex_none)

text \<open>
  C9. No foreground. When no channel value of the buffer passes the test both scans
  return -1, both rows are the same (row -1 for a width of at least one pixel), the
  height is 1, and \<open>calculate\<close> returns normally with the ratio \<open>(1 / DPR) / f\<close>
  (\<open>1 / f\<close> in the version 1.1 module).
\<close>

theorem no_foreground_height_one:
  "((\<forall>v\<in>set px. \<not> isNotWhite v) \<longrightarrow>
      findIndex px isNotWhite = -1 \<and> findLastIndex px isNotWhite = -1
      \<and> getHeight (getMetrics px d) = 1
      \<and> (1 \<le> width d \<longrightarrow> getAscent px (width d) = -1 \<and> getDescent px (width d) = -1))
   \<and> (1 \<le> w \<longrightarrow> getYPosition (-1) w = -1 \<and> getYPosition_legacy (-1) w = -1)
   \<and> (0 < DPR h \<and> getFontSize h (lodash_defaults (\<sigma> p) defaults) = Inr f
       \<and> \<not> test_whitespace t
       \<and> raster h (lodash_defaults (\<sigma> p) defaults) (physicalDimensions h f t) (DPR h)
            (dimensions f t) t = Inr px
       \<and> 1 \<le> width (physicalDimensions h f t)
       \<and> (\<forall>v\<in>set px. \<not> isNotWhite v) \<longrightarrow>
       calculate h p (Some t) \<sigma>
         = (Inr p, \<sigma>(p := (lodash_defaults (\<sigma> p) defaults)(''--cap-height'' \<mapsto>
              JNum ((1 / DPR h) / f)))))
   \<and> (getFontSize_legacy h (mergeWithDefaults props) = Inr f'
       \<and> \<not> test_whitespace (textOrH tx)
       \<and> raster h (mergeWithDefaults props)
            \<lparr>width = 2 * f' * of_nat (length (textOrH tx)), height = 2 * f'\<rparr> 1
            \<lparr>width = 2 * f' * of_nat (length (textOrH tx)), height = 2 * f'\<rparr> (textOrH tx)
           = Inr px'
       \<and> (\<forall>v\<in>set px'. \<not> isBlack v) \<longrightarrow>
       calculate_legacy h props tx
         = Inr ((mergeWithDefaults props)(''cap-height'' \<mapsto> JNum (1 / f'))))"
proof (intro conjI impI)
  assume b: "\<forall>v\<in>set px. \<not> isNotWhite v"
  show i: "findIndex px isNotWhite = -1" and l: "findLastIndex px isNotWhite = -1"
    using scan_blank_height [OF b] by simp_all
  show "getHeight (getMetrics px d) = 1"
    by (simp add: getHeight_def getMetrics_def getAscent_def getDescent_def i l)
  {
    assume "1 \<le> width d"
    then have "getYPosition (-1) (width d) = -1" by (intro getYPosition_minus_one) simp
    then show "getAscent px (width d) = -1" "getDescent px (width d) = -1"
      by (simp_all add: getAscent_def getDescent_def i l)
  }
next
  assume "1 \<le> w"
  then have "1 / 4 \<le> w" by simp
  then show "getYPosition (-1) w = -1" "getYPosition_legacy (-1) w = -1"
    by (simp_all add: getYPosition_minus_one getYPosition_legacy_minus_one)
next
  assume a: "0 < DPR h \<and> getFontSize h (lodash_defaults (\<sigma> p) defaults) = Inr f
       \<and> \<not> test_whitespace t
       \<and> raster h (lodash_defaults (\<sigma> p) defaults) (physicalDimensions h f t) (DPR h)
            (dimensions f t) t = Inr px
       \<and> 1 \<le> width (physicalDimensions h f t)
       \<and> (\<forall>v\<in>set px. \<not> isNotWhite v)"
  define \<sigma>1 where "\<sigma>1 = \<sigma>(p := lodash_defaults (\<sigma> p) defaults)"
  from a have f: "getFontSize h (\<sigma>1 p) = Inr f" and w: "\<not> test_whitespace t"
    and r: "raster h (\<sigma>1 p) (physicalDimensions h f t) (DPR h) (dimensions f t) t = Inr px"
    and b: "\<forall>v\<in>set px. \<not> isNotWhite v"
    by (simp_all add: \<sigma>1_def)
  have ht: "getHeight (getMetrics px (physicalDimensions h f t)) = 1"
    using scan_blank_height [OF b]
    by (simp add: getHeight_def getMetrics_def getAscent_def getDescent_def)
  have "calculate h p (Some t) \<sigma> = measureTextHeight h t p \<sigma>1"
    by (simp add: calculate_def Let_def \<sigma>1_def)
  also have "\<dots> = (Inr p, \<sigma>1(p := (\<sigma>1 p)(''--cap-height'' \<mapsto> JNum (1 / DPR h / f))))"
    by (simp add: measureTextHeight_raster [where \<sigma>=\<sigma>1 and p=p, OF f w] r ht)
  finally show "calculate h p (Some t) \<sigma>
         = (Inr p, \<sigma>(p := (lodash_defaults (\<sigma> p) defaults)(''--cap-height'' \<mapsto>
              JNum ((1 / DPR h) / f))))"
    by (simp add: \<sigma>1_def)
next
  assume a: "getFontSize_legacy h (mergeWithDefaults props) = Inr f'
       \<and> \<not> test_whitespace (textOrH tx)
       \<and> raster h (mergeWithDefaults props)
            \<lparr>width = 2 * f' * of_nat (length (textOrH tx)), height = 2 * f'\<rparr> 1
            \<lparr>width = 2 * f' * of_nat (length (textOrH tx)), height = 2 * f'\<rparr> (textOrH tx)
           = Inr px'
       \<and> (\<forall>v\<in>set px'. \<not> isBlack v)"
  then have f: "getFontSize_legacy h (mergeWithDefaults props) = Inr f'"
    and w: "\<not> test_whitespace (textOrH tx)" and b: "\<forall>v\<in>set px'. \<not> isBlack v"
    by simp_all
  have ht: "getHeight_legacy (getDescent_legacy px' x) (getAscent_legacy px' x) = 1" for x
    using scan_blank_height [OF b]
    by (simp add: getHeight_legacy_def getAscent_legacy_def getDescent_legacy_def)
  from a show "calculate_legacy h props tx
         = Inr ((mergeWithDefaults props)(''cap-height'' \<mapsto> JNum (1 / f')))"
    by (simp add: calculate_legacy_def Let_def measureTextHeight_legacy_raster [OF f w]
        lodash_set_def ht)
qed

lemma trim_empty_whitespace:
  assumes "t \<noteq> []" and "String_trim t = []"
  shows "test_whitespace t"
proof (cases "dropWhile isSpace t = []")
  case True
  then have "\<forall>c\<in>set t. isSpace c" by (simp add: dropWhile_eq_Nil_conv)
  with assms(1) show ?thesis
    by (cases t) (simp_all add: test_whitespace_def list_ex_iff)
next
  case False
  then obtain c where c: "c \<in> set (dropWhile isSpace t)"
    by (cases "dropWhile isSpace t") auto
  from assms(2) have "\<forall>c\<in>set (dropWhile isSpace t). isSpace c"
    by (simp add: String_trim_def dropWhile_eq_Nil_conv)
  with c have "isSpace c" by blast
  moreover from c have "c \<in> set t" by (rule set_dropWhileD)
  ultimately show ?thesis by (auto simp: test_whitespace_def list_ex_iff)
qed

lemma whitespace_textOrH: "test_whitespace t \<Longrightarrow> textOrH (Some t) = t"
  by (cases t) (simp_all add: textOrH_def test_whitespace_def)

text \<open>
  C4, amended. A text that contains a whitespace character is rejected: with a valid
  font size \<open>measureTextHeight\<close> and \<open>calculate\<close> throw the whitespace \<open>RangeError\<close>
  (the font-size error comes first when the font size is invalid), no record is returned
  and \<open>measureTextHeight\<close> leaves the store as it was. Every non-empty text that is
  empty after trimming contains whitespace.
\<close>

theorem whitespace_rejected:
  "(test_whitespace t \<longrightarrow>
      fst (measureTextHeight h t p \<sigma>)
        = (case getFontSize h (\<sigma> p) of Inl e \<Rightarrow> Inl e | Inr f \<Rightarrow> Inl RangeError_whitespace)
      \<and> snd (measureTextHeight h t p \<sigma>) = \<sigma>
      \<and> fst (calculate h p (Some t) \<sigma>)
        = (case getFontSize h (lodash_defaults (\<sigma> p) defaults) of
             Inl e \<Rightarrow> Inl e | Inr f \<Rightarrow> Inl RangeError_whitespace)
      \<and> measureTextHeight_legacy h props (Some t)
        = (case getFontSize_legacy h props of
             Inl e \<Rightarrow> Inl e | Inr f \<Rightarrow> Inl RangeError_whitespace)
      \<and> calculate_legacy h props (Some t)
        = (case getFontSize_legacy h (mergeWithDefaults props) of
             Inl e \<Rightarrow> Inl e | Inr f \<Rightarrow> Inl RangeError_whitespace)
      \<and> isl (fst (calculate h p (Some t) \<sigma>))
      \<and> isl (calculate_legacy h props (Some t)))
   \<and> (t \<noteq> [] \<and> String_trim t = [] \<longrightarrow> test_whitespace t)
   \<and> (test_whitespace t \<longleftrightarrow> (\<exists>c\<in>set t. isSpace c))
   \<and> WhitespaceTextError RangeError_whitespace"
proof (intro conjI impI)
  assume w: "test_whitespace t"
  show m: "fst (measureTextHeight h t p \<sigma>)
        = (case getFontSize h (\<sigma> p) of Inl e \<Rightarrow> Inl e | Inr f \<Rightarrow> Inl RangeError_whitespace)"
    for \<sigma>
    using w by (simp add: measureTextHeight_def split: sum.splits)
  show "snd (measureTextHeight h t p \<sigma>) = \<sigma>"
    using w by (simp add: measureTextHeight_def split: sum.splits)
  show c: "fst (calculate h p (Some t) \<sigma>)
        = (case getFontSize h (lodash_defaults (\<sigma> p) defaults) of
             Inl e \<Rightarrow> Inl e | Inr f \<Rightarrow> Inl RangeError_whitespace)"
    using m [of "\<sigma>(p := lodash_defaults (\<sigma> p) defaults)"]
    by (simp add: calculate_def Let_def)
  show l: "measureTextHeight_legacy h props (Some t)
        = (case getFontSize_legacy h props of
             Inl e \<Rightarrow> Inl e | Inr f \<Rightarrow> Inl RangeError_whitespace)" for props
    using w by (simp add: measureTextHeight_legacy_def whitespace_textOrH split: sum.splits)
  show cl: "calculate_legacy h props (Some t)
        = (case getFontSize_legacy h (mergeWithDefaults props) of
             Inl e \<Rightarrow> Inl e | Inr f \<Rightarrow> Inl RangeError_whitespace)"
    by (simp add: calculate_legacy_def Let_def l split: sum.splits)
  show "isl (fst (calculate h p (Some t) \<sigma>))"
    unfolding c by (simp split: sum.splits)
  show "isl (calculate_legacy h props (Some t))"
    unfolding cl by (simp split: sum.splits)
next
  assume "t \<noteq> [] \<and> String_trim t = []"
  then show "test_whitespace t" using trim_empty_whitespace by blast
next
  show "test_whitespace t \<longleftrightarrow> (\<exists>c\<in>set t. isSpace c)"
    by (simp add: test_whitespace_def list_ex_iff)
  show "WhitespaceTextError RangeError_whitespace" by (simp add: WhitespaceTextError_def)
qed

section \<open>The sample hosts\<close>

lemma sample_facts:
  "DPR sampleHost = 2"
  "getFontSize sampleHost sampleProperties = Inr 1"
  "getFontSize sampleHost (lodash_defaults sampleProperties defaults) = Inr 1"
  "getFontSize_legacy sampleHost sampleProperties = Inr 1"
  "getFontSize_legacy sampleHost (mergeWithDefaults sampleProperties) = Inr 1"
  "\<not> test_whitespace (js ''H'')"
  "\<not> test_whitespace (js ''HI'')"
  "\<not> test_whitespace (textOrH None)"
  "\<not> test_whitespace (textOrH (Some (js ''HI'')))"
  "test_whitespace (js '' '')"
  "test_whitespace (js ''a b'')"
  by code_simp+

lemma sample_raster:
  "raster sampleHost sampleProperties (physicalDimensions sampleHost 1 (js ''H''))
     (DPR sampleHost) (dimensions 1 (js ''H'')) (js ''H'')
   = Inr (inkPixels (\<lambda>r. r = 1 \<or> r = 2) 4 4)"
  "raster sampleHost (mergeWithDefaults sampleProperties)
     \<lparr>width = 2 * 1 * of_nat (length (textOrH None)), height = 2 * 1\<rparr> 1
     \<lparr>width = 2 * 1 * of_nat (length (textOrH None)), height = 2 * 1\<rparr> (textOrH None)
   = Inr (inkPixels (\<lambda>r. r = 1 \<or> r = 2) 2 2)"
  "getHeight (getMetrics (inkPixels (\<lambda>r. r = 1 \<or> r = 2) 4 4)
     (physicalDimensions sampleHost 1 (js ''H''))) = 2"
  "getHeight_legacy
     (getDescent_legacy (inkPixels (\<lambda>r. r = 1 \<or> r = 2) 2 2)
        (2 * 1 * of_nat (length (textOrH None))))
     (getAscent_legacy (inkPixels (\<lambda>r. r = 1 \<or> r = 2) 2 2)
        (2 * 1 * of_nat (length (textOrH None)))) = 1"
  by code_simp+

theorem cap_height_ratio_witness:
  "0 < DPR sampleHost
   \<and> getFontSize sampleHost sampleProperties = Inr 1
   \<and> \<not> test_whitespace (js ''H'')
   \<and> fst (measureTextHeight sampleHost (js ''H'') 0 (\<lambda>r. sampleProperties)) = Inr 0
   \<and> snd (measureTextHeight sampleHost (js ''H'') 0 (\<lambda>r. sampleProperties)) 0 ''--cap-height''
       = Some (JNum ((2 / 2) / 1))
   \<and> getFontSize_legacy sampleHost (mergeWithDefaults sampleProperties) = Inr 1
   \<and> calculate_legacy sampleHost sampleProperties None
       = Inr ((mergeWithDefaults sampleProperties)(''cap-height'' \<mapsto> JNum ((1 / 1) / 1)))"
  using cap_height_ratio [where h = sampleHost and \<sigma> = "\<lambda>r. sampleProperties" and p = 0
      and f = 1 and t = "js ''H''" and px = "inkPixels (\<lambda>r. r = 1 \<or> r = 2) 4 4"
      and props = sampleProperties and f' = 1 and tx = None
      and px' = "inkPixels (\<lambda>r. r = 1 \<or> r = 2) 2 2"]
    sample_facts sample_raster
  by simp

lemma sample_raster_HI:
  "raster sampleHost sampleProperties
     \<lparr>width = 2 * 1 * of_nat (length (js ''HI'')) * DPR sampleHost, height = 2 * 1 * DPR sampleHost\<rparr>
     (DPR sampleHost)
     \<lparr>width = 2 * 1 * of_nat (length (js ''HI'')), height = 2 * 1\<rparr> (js ''HI'')
   = Inr (inkPixels (\<lambda>r. r = 1 \<or> r = 2) 8 4)"
  "raster sampleHost sampleProperties
     \<lparr>width = 2 * 1 * of_nat (length (textOrH (Some (js ''HI'')))), height = 2 * 1\<rparr> 1
     \<lparr>width = 2 * 1 * of_nat (length (textOrH (Some (js ''HI'')))), height = 2 * 1\<rparr>
     (textOrH (Some (js ''HI'')))
   = Inr (inkPixels (\<lambda>r. r = 1 \<or> r = 2) 4 2)"
  "getHeight_legacy
     (getDescent_legacy (inkPixels (\<lambda>r. r = 1 \<or> r = 2) 4 2)
        (2 * 1 * of_nat (length (textOrH (Some (js ''HI''))))))
     (getAscent_legacy (inkPixels (\<lambda>r. r = 1 \<or> r = 2) 4 2)
        (2 * 1 * of_nat (length (textOrH (Some (js ''HI'')))))) = 1"
  by code_simp+

theorem raster_geometry_witness:
  "getFontSize sampleHost sampleProperties = Inr 1
   \<and> \<not> test_whitespace (js ''HI'')
   \<and> dimensions 1 (js ''HI'') = \<lparr>width = 4, height = 2\<rparr>
   \<and> physicalDimensions sampleHost 1 (js ''HI'') = \<lparr>width = 8, height = 4\<rparr>
   \<and> fst (measureTextHeight sampleHost (js ''HI'') 0 (\<lambda>r. sampleProperties)) = Inr 0
   \<and> getFontSize_legacy sampleHost sampleProperties = Inr 1
   \<and> \<not> test_whitespace (textOrH (Some (js ''HI'')))
   \<and> measureTextHeight_legacy sampleHost sampleProperties (Some (js ''HI'')) = Inr 1"
  using raster_geometry [where h = sampleHost and \<sigma> = "\<lambda>r. sampleProperties" and p = 0
      and f = 1 and t = "js ''HI''" and props = sampleProperties and tx = "Some (js ''HI'')"]
    sample_facts sample_raster_HI
  by (simp add: js_def)

lemma sample_calculate:
  "fst (calculate sampleHost 0 None (\<lambda>r. sampleProperties)) = Inr 0"
  "calculate_legacy sampleHost sampleProperties None
     = Inr ((mergeWithDefaults sampleProperties)(''cap-height'' \<mapsto> JNum 1))"
proof -
  have "calculate sampleHost 0 None (\<lambda>r. sampleProperties)
      = measureTextHeight sampleHost (js ''H'') 0
          ((\<lambda>r. sampleProperties)(0 := lodash_defaults sampleProperties defaults))"
    by (simp add: calculate_def Let_def)
  moreover have "raster sampleHost (lodash_defaults sampleProperties defaults)
      (physicalDimensions sampleHost 1 (js ''H'')) (DPR sampleHost) (dimensions 1 (js ''H''))
      (js ''H'') = Inr (inkPixels (\<lambda>r. r = 1 \<or> r = 2) 4 4)"
    by code_simp
  ultimately show "fst (calculate sampleHost 0 None (\<lambda>r. sampleProperties)) = Inr 0"
    using sample_facts
    by (simp add: measureTextHeight_raster
        [where \<sigma> = "(\<lambda>r. sampleProperties)(0 := lodash_defaults sampleProperties defaults)"
          and p = 0 and f = 1])
  show "calculate_legacy sampleHost sampleProperties None
     = Inr ((mergeWithDefaults sampleProperties)(''cap-height'' \<mapsto> JNum 1))"
    using sample_facts sample_raster
    by (simp add: calculate_legacy_def Let_def lodash_set_def
        measureTextHeight_legacy_raster [where f = 1])
qed

theorem default_fill_witness:
  "''font-family'' \<noteq> ''--cap-height''
   \<and> snd (calculate sampleHost 0 None (\<lambda>r. sampleProperties)) 0 ''font-family''
       = Some (JStr (js ''serif''))
   \<and> snd (calculate sampleHost 0 None (\<lambda>r. sampleProperties)) 0 ''font-size''
       = Some (JStr (js ''1px''))
   \<and> ''font-family'' \<noteq> ''cap-height''
   \<and> calculate_legacy sampleHost sampleProperties None
       = Inr ((mergeWithDefaults sampleProperties)(''cap-height'' \<mapsto> JNum 1))
   \<and> ((mergeWithDefaults sampleProperties)(''cap-height'' \<mapsto> JNum 1)) ''font-family''
       = Some (JStr (js ''serif''))
   \<and> mergeWithDefaults sampleProperties ''font-weight'' = Some (JNum 400)"
proof -
  note d = default_fill [where h = sampleHost and p = 0 and \<sigma> = "\<lambda>r. sampleProperties"
      and tx = None and props = sampleProperties
      and m = "(mergeWithDefaults sampleProperties)(''cap-height'' \<mapsto> JNum 1)"]
  have k: "''font-family'' \<noteq> ''--cap-height''" "''font-size'' \<noteq> ''--cap-height''"
    "''font-family'' \<noteq> ''cap-height''"
    by simp_all
  have v: "sampleProperties ''font-family'' = None"
    "sampleProperties ''font-size'' = Some (JStr (js ''1px''))"
    "sampleProperties ''font-weight'' = None"
    "defaults ''font-family'' = Some (JStr (js ''serif''))"
    "defaults ''font-weight'' = Some (JNum 400)"
    by (simp_all add: sampleProperties_def defaults_def)
  from d [where key = "''font-family''"] k(1)
  have a: "snd (calculate sampleHost 0 None (\<lambda>r. sampleProperties)) 0 ''font-family''
      = (case sampleProperties ''font-family'' of Some v \<Rightarrow> Some v
         | None \<Rightarrow> defaults ''font-family'')"
    by blast
  from d [where key = "''font-size''"] k(2)
  have b: "snd (calculate sampleHost 0 None (\<lambda>r. sampleProperties)) 0 ''font-size''
      = (case sampleProperties ''font-size'' of Some v \<Rightarrow> Some v
         | None \<Rightarrow> defaults ''font-size'')"
    by blast
  from d [where key = "''font-family''"] k(3) sample_calculate(2)
  have c: "((mergeWithDefaults sampleProperties)(''cap-height'' \<mapsto> JNum 1)) ''font-family''
      = (case sampleProperties ''font-family'' of Some v \<Rightarrow> Some v
         | None \<Rightarrow> defaults ''font-family'')"
    by blast
  from d [where key = "''font-weight''"]
  have e: "mergeWithDefaults sampleProperties ''font-weight''
      = (case sampleProperties ''font-weight'' of Some v \<Rightarrow> Some v
         | None \<Rightarrow> defaults ''font-weight'')"
    by blast
  show ?thesis
    unfolding a b c e v using k sample_calculate(2) by simp
qed


lemma blank_facts:
  "DPR blankHost = 2"
  "getFontSize blankHost (lodash_defaults sampleProperties defaults) = Inr 1"
  "getFontSize_legacy blankHost (mergeWithDefaults sampleProperties) = Inr 1"
  "raster blankHost (lodash_defaults sampleProperties defaults)
     (physicalDimensions blankHost 1 (js ''H'')) (DPR blankHost) (dimensions 1 (js ''H''))
     (js ''H'') = Inr (inkPixels (\<lambda>r. False) 4 4)"
  "raster blankHost (mergeWithDefaults sampleProperties)
     \<lparr>width = 2 * 1 * of_nat (length (textOrH None)), height = 2 * 1\<rparr> 1
     \<lparr>width = 2 * 1 * of_nat (length (textOrH None)), height = 2 * 1\<rparr> (textOrH None)
   = Inr (inkPixels (\<lambda>r. False) 2 2)"
  "physicalDimensions blankHost 1 (js ''H'') = \<lparr>width = 4, height = 4\<rparr>"
  by code_simp+

lemma set_inkPixels_blank: "v \<in> set (inkPixels (\<lambda>r. False) W H) \<Longrightarrow> v = 255"
  by (auto simp: inkPixels_def split: if_splits)

lemma blank_pixels:
  "\<forall>v\<in>set (inkPixels (\<lambda>r. False) W H). \<not> isNotWhite v"
  "\<forall>v\<in>set (inkPixels (\<lambda>r. False) W H). \<not> isBlack v"
  "\<not> list_ex isNotWhite (inkPixels (\<lambda>r. False) W H)"
  by (auto simp: list_ex_iff isNotWhite_def isBlack_def THRESHOLD_def dest!: set_inkPixels_blank)

theorem no_foreground_height_one_witness:
  "0 < DPR blankHost
   \<and> getFontSize blankHost (lodash_defaults sampleProperties defaults) = Inr 1
   \<and> \<not> list_ex isNotWhite (inkPixels (\<lambda>r. False) 4 4)
   \<and> findIndex (inkPixels (\<lambda>r. False) 4 4) isNotWhite = -1
   \<and> findLastIndex (inkPixels (\<lambda>r. False) 4 4) isNotWhite = -1
   \<and> getAscent (inkPixels (\<lambda>r. False) 4 4) 4 = -1
   \<and> getDescent (inkPixels (\<lambda>r. False) 4 4) 4 = -1
   \<and> getHeight (getMetrics (inkPixels (\<lambda>r. False) 4 4) \<lparr>width = 4, height = 4\<rparr>) = 1
   \<and> calculate blankHost 0 (Some (js ''H'')) (\<lambda>r. sampleProperties)
       = (Inr 0, (\<lambda>r. sampleProperties)(0 :=
            (lodash_defaults sampleProperties defaults)(''--cap-height'' \<mapsto> JNum ((1 / 2) / 1))))
   \<and> calculate_legacy blankHost sampleProperties None
       = Inr ((mergeWithDefaults sampleProperties)(''cap-height'' \<mapsto> JNum (1 / 1)))"
  using no_foreground_height_one [where px = "inkPixels (\<lambda>r. False) 4 4"
      and d = "\<lparr>width = 4, height = 4\<rparr>" and w = 4 and h = blankHost
      and \<sigma> = "\<lambda>r. sampleProperties" and p = 0 and f = 1 and t = "js ''H''"
      and props = sampleProperties and f' = 1 and tx = None
      and px' = "inkPixels (\<lambda>r. False) 2 2"]
    blank_facts blank_pixels sample_facts
  by simp

lemma whitespace_facts:
  "js '' '' \<noteq> []"
  "String_trim (js '' '') = []"
  "String_trim [] = []"
  "\<not> test_whitespace []"
  by code_simp+

theorem whitespace_rejected_witness:
  "test_whitespace (js '' '') \<and> test_whitespace (js ''a b'')
   \<and> js '' '' \<noteq> [] \<and> String_trim (js '' '') = []
   \<and> fst (measureTextHeight sampleHost (js '' '') 0 (\<lambda>r. sampleProperties))
       = Inl RangeError_whitespace
   \<and> fst (measureTextHeight sampleHost (js ''a b'') 0 (\<lambda>r. sampleProperties))
       = Inl RangeError_whitespace
   \<and> fst (calculate sampleHost 0 (Some (js '' '')) (\<lambda>r. sampleProperties))
       = Inl RangeError_whitespace
   \<and> fst (calculate sampleHost 0 (Some (js ''a b'')) (\<lambda>r. sampleProperties))
       = Inl RangeError_whitespace
   \<and> measureTextHeight_legacy sampleHost sampleProperties (Some (js '' ''))
       = Inl RangeError_whitespace
   \<and> measureTextHeight_legacy sampleHost sampleProperties (Some (js ''a b''))
       = Inl RangeError_whitespace
   \<and> calculate_legacy sampleHost sampleProperties (Some (js '' '')) = Inl RangeError_whitespace
   \<and> calculate_legacy sampleHost sampleProperties (Some (js ''a b'')) = Inl RangeError_whitespace"
  using whitespace_rejected [where t = "js '' ''" and h = sampleHost and p = 0
      and \<sigma> = "\<lambda>r. sampleProperties" and props = sampleProperties]
    whitespace_rejected [where t = "js ''a b''" and h = sampleHost and p = 0
      and \<sigma> = "\<lambda>r. sampleProperties" and props = sampleProperties]
    sample_facts whitespace_facts
  by simp

text \<open>
  C4 as stated fails on the empty text: it is empty after trimming, yet the version 1.1
  module measures \<open>"H"\<close> in its place and returns a height, and the version 2 module
  reaches the canvas, whose exception is not the whitespace error.
\<close>

theorem empty_text_not_rejected:
  "String_trim [] = []
   \<and> measureTextHeight_legacy sampleHost sampleProperties (Some []) = Inr 1
   \<and> \<not> isl (calculate_legacy sampleHost sampleProperties (Some []))
   \<and> fst (measureTextHeight sampleHost [] 0 (\<lambda>r. sampleProperties)) = Inl DOMException
   \<and> \<not> WhitespaceTextError DOMException"
  by code_simp

end
